theory Spec2Isabelle
  imports Complex_Main
begin

section \<open>Python values, exceptions and numpy numbers\<close>

text \<open>
  The program \<^verbatim>\<open>dtrradarsim.py\<close> is Python 2 code over numpy arrays. Floating-point
  numbers are idealised as real numbers: rounding, overflow and the textual special values
  of \<^verbatim>\<open>float()\<close> are outside the model. Every raise of the source is a value
  \<open>Inl exc\<close>; a division by zero, which numpy answers with \<^verbatim>\<open>nan\<close> or
  \<^verbatim>\<open>inf\<close> instead of raising, is written out in \<open>np_divide\<close>.
\<close>

datatype pyexc = ValueError | TypeError | IndexError

text \<open>The values that reach the simulation from the widgets: \<^verbatim>\<open>None\<close>, a text, or
  an integer literal (the default \<^verbatim>\<open>amplitude = 1\<close>).\<close>

datatype pyval = PNone | PStr string | PInt int

text \<open>\<^verbatim>\<open>float(text)\<close> is a builtin of Python, not code of the program: it is a parameter
  of the model, \<open>None\<close> where the builtin raises \<^verbatim>\<open>ValueError\<close>.\<close>

type_synonym float_parser = "string \<Rightarrow> real option"

fun py_float :: "float_parser \<Rightarrow> pyval \<Rightarrow> pyexc + real" where
  "py_float P PNone = Inl TypeError"
| "py_float P (PStr s) = (case P s of None \<Rightarrow> Inl ValueError | Some r \<Rightarrow> Inr r)"
| "py_float P (PInt i) = Inr (of_int i)"

text \<open>Python 2's \<^verbatim>\<open>round\<close> rounds a half away from zero.\<close>

definition py_round :: "real \<Rightarrow> int" where
  "py_round x = (if 0 \<le> x then \<lfloor>x + 1 / 2\<rfloor> else \<lceil>x - 1 / 2\<rceil>)"

text \<open>\<^verbatim>\<open>numpy.arange(start, stop)\<close> on integers: \<open>start, ..., stop - 1\<close>, empty when
  \<open>stop \<le> start\<close>.\<close>

definition arange :: "int \<Rightarrow> int \<Rightarrow> int list" where
  "arange start stop = [start..stop - 1]"

text \<open>The result of a numpy division of floats.\<close>

datatype npfloat = Fin real | PosInf | NegInf | NaN

definition np_divide :: "real \<Rightarrow> real \<Rightarrow> npfloat" where
  "np_divide x m =
     (if m = 0 then (if x = 0 then NaN else if 0 < x then PosInf else NegInf)
      else Fin (x / m))"

text \<open>A two-dimensional array is the list of its rows.\<close>

type_synonym ndarray = "real list list"

definition np_abs :: "ndarray \<Rightarrow> ndarray" where
  "np_abs a = map (map abs) a"

text \<open>All elements of an array, row after row.\<close>

definition ravel :: "'a list list \<Rightarrow> 'a list" where
  "ravel a = concat a"

text \<open>\<^verbatim>\<open>numpy.amax\<close> of the whole array; it raises \<^verbatim>\<open>ValueError\<close> on an array
  without elements.\<close>

definition np_amax :: "ndarray \<Rightarrow> pyexc + real" where
  "np_amax a = (case ravel a of [] \<Rightarrow> Inl ValueError | x # xs \<Rightarrow> Inr (fold max xs x))"

definition np_add :: "ndarray \<Rightarrow> ndarray \<Rightarrow> ndarray" where
  "np_add a b = map2 (map2 (+)) a b"

definition np_scale :: "ndarray \<Rightarrow> real \<Rightarrow> ndarray" where
  "np_scale a k = map (map (\<lambda>x. x * k)) a"

definition np_true_divide :: "ndarray \<Rightarrow> real \<Rightarrow> npfloat list list" where
  "np_true_divide a m = map (map (\<lambda>x. np_divide x m)) a"

section \<open>The windows\<close>

record simple_window =
  speed_entry :: string
  dur_entry :: string
  appro_rad :: bool
  recede_rad :: bool

definition get_direct :: "simple_window \<Rightarrow> bool option" where
  "get_direct w = (if appro_rad w then Some True else if recede_rad w then Some False else None)"

record advanced_window =
  adv_dur_entry :: string
  speed_entries :: "string list"
  appr_buttons :: "bool list"
  amp_entries :: "string list"

definition get_speed :: "advanced_window \<Rightarrow> string list" where
  "get_speed w = speed_entries w"

definition get_direction :: "advanced_window \<Rightarrow> bool list" where
  "get_direction w = map (\<lambda>active. if active then False else True) (appr_buttons w)"

definition get_amplitude :: "advanced_window \<Rightarrow> string list" where
  "get_amplitude w = amp_entries w"

definition get_duration :: "advanced_window \<Rightarrow> string" where
  "get_duration w = adv_dur_entry w"

text \<open>\<open>simple_shown\<close> is the test
  \<^verbatim>\<open>self.simple_win.get_main_table() == self.main_frame.children[0]\<close>.\<close>

record main_window =
  metric_button :: bool
  kband_rad :: bool
  kaband_rad :: bool
  xband_rad :: bool
  simple_shown :: bool
  simple_win :: simple_window
  advanced_win :: advanced_window

definition FREQUENCY_SAMPLE :: real where
  "FREQUENCY_SAMPLE = 44100"

section \<open>The Doppler equation\<close>

definition calc_frequency :: "main_window \<Rightarrow> real \<Rightarrow> real option" where
  "calc_frequency self velocity =
     (let c = 299792458 in
      if kband_rad self then Some ((2 * 24150000000 * velocity) / c)
      else if kaband_rad self then Some ((2 * 34700000000 * velocity) / c)
      else if xband_rad self then Some ((2 * 10525000000 * velocity) / c)
      else None)"

text \<open>The conversion of the speed to meters per second, lines 574 to 580 of
  \<^verbatim>\<open>create_sine\<close>.\<close>

definition meters_per_sec :: "main_window \<Rightarrow> real \<Rightarrow> real" where
  "meters_per_sec self speed_units =
     (if metric_button self then speed_units * (1000 / 60 ^ 2)
      else speed_units * (1609.34 / 60 ^ 2))"

section \<open>Synthesis of one vehicle\<close>

text \<open>\<^verbatim>\<open>create_sine\<close> returns an error text or the array of the two channels.\<close>

datatype pyret = Str string | NdArray ndarray

text \<open>\<^verbatim>\<open>except ValueError: return 'CONVERT ERROR'\<close>; any other exception propagates.\<close>

definition convert_handler :: "pyexc \<Rightarrow> pyexc + pyret" where
  "convert_handler e = (if e = ValueError then Inr (Str ''CONVERT ERROR'') else Inl e)"

definition ch_1_data :: "real \<Rightarrow> int list \<Rightarrow> real list" where
  "ch_1_data frequency n_list =
     map (\<lambda>n. cos (2 * pi * frequency * of_int n / FREQUENCY_SAMPLE)) n_list"

definition ch_2_data :: "real \<Rightarrow> real \<Rightarrow> int list \<Rightarrow> real list" where
  "ch_2_data frequency phase_angle n_list =
     map (\<lambda>n. 1.9 * cos ((2 * pi * frequency * of_int n / FREQUENCY_SAMPLE) - phase_angle)) n_list"

definition create_sine ::
  "float_parser \<Rightarrow> main_window \<Rightarrow> pyval \<Rightarrow> bool option \<Rightarrow> pyval \<Rightarrow> pyval \<Rightarrow> pyexc + pyret" where
  "create_sine P self speed_units direction duration amplitude =
     (case direction of
        None \<Rightarrow> Inr (Str ''DIR ERROR'')
      | Some towards \<Rightarrow>
          let phase_angle = (if towards then pi / 2 else -1 * pi / 2) in
          (case py_float P speed_units of
             Inl e \<Rightarrow> convert_handler e
           | Inr speed \<Rightarrow>
          (case py_float P duration of
             Inl e \<Rightarrow> convert_handler e
           | Inr dur \<Rightarrow>
          (case py_float P amplitude of
             Inl e \<Rightarrow> convert_handler e
           | Inr amp \<Rightarrow>
          (case calc_frequency self (meters_per_sec self speed) of
             None \<Rightarrow> Inr (Str ''TRANSMIT FREQ ERROR'')
           | Some frequency \<Rightarrow>
               let n_list = arange 1 (py_round (dur * FREQUENCY_SAMPLE) + 1);
                   channels = transpose [ch_1_data frequency n_list,
                                         ch_2_data frequency phase_angle n_list]
               in Inr (NdArray (np_scale channels amp)))))))"

section \<open>Running the simulation\<close>

text \<open>Lines 460 to 462 and 529 to 531 of \<^verbatim>\<open>run\<close>: the array is divided by its largest
  absolute value.\<close>

definition normalize_channels :: "ndarray \<Rightarrow> pyexc + npfloat list list" where
  "normalize_channels channels =
     (case np_amax (np_abs channels) of
        Inl e \<Rightarrow> Inl e
      | Inr maximum \<Rightarrow> Inr (np_true_divide channels maximum))"

text \<open>What a run does to the outside: the dialogs made by \<^verbatim>\<open>create_error_window\<close>, by
  their error text, and the arrays given to \<^verbatim>\<open>sounddevice.play\<close>.\<close>

record effects =
  error_windows :: "string list"
  played :: "npfloat list list list"

definition create_error_window :: "string \<Rightarrow> effects \<Rightarrow> effects" where
  "create_error_window error_string fx = fx\<lparr>error_windows := error_windows fx @ [error_string]\<rparr>"

definition play :: "npfloat list list \<Rightarrow> effects \<Rightarrow> effects" where
  "play channels fx = fx\<lparr>played := played fx @ [channels]\<rparr>"

definition no_effects :: effects where
  "no_effects = \<lparr>error_windows = [], played = []\<rparr>"

definition play_normalized :: "ndarray \<Rightarrow> effects \<Rightarrow> pyexc + effects" where
  "play_normalized channels fx =
     (case normalize_channels channels of Inl e \<Rightarrow> Inl e | Inr scaled \<Rightarrow> Inr (play scaled fx))"

definition run_simple :: "float_parser \<Rightarrow> main_window \<Rightarrow> pyexc + effects" where
  "run_simple P self =
     (let speed = PStr (speed_entry (simple_win self));
          duration = PStr (dur_entry (simple_win self));
          direction = get_direct (simple_win self)
      in case create_sine P self speed direction duration (PInt 1) of
           Inl e \<Rightarrow> Inl e
         | Inr (Str msg) \<Rightarrow> Inr (create_error_window msg no_effects)
         | Inr (NdArray channels) \<Rightarrow> play_normalized channels no_effects)"

type_synonym vehicle = "pyval \<times> bool option \<times> pyval"

text \<open>Python indexing of a list by a natural number.\<close>

definition index :: "'a list \<Rightarrow> nat \<Rightarrow> pyexc + 'a" where
  "index xs i = (if i < length xs then Inr (xs ! i) else Inl IndexError)"

text \<open>The test of line 487, with the short-circuit evaluation of \<^verbatim>\<open>and\<close>: a list is
  indexed only when the tests before it held.\<close>

definition specified :: "pyval list \<Rightarrow> bool option list \<Rightarrow> pyval list \<Rightarrow> nat \<Rightarrow> pyexc + bool" where
  "specified speed_list direct_list amp_list i =
     (case index speed_list i of
        Inl e \<Rightarrow> Inl e
      | Inr s \<Rightarrow>
          if s \<noteq> PNone \<and> s \<noteq> PStr '''' then
            (case index direct_list i of
               Inl e \<Rightarrow> Inl e
             | Inr d \<Rightarrow>
                 if d \<noteq> None then
                   (case index amp_list i of
                      Inl e \<Rightarrow> Inl e
                    | Inr a \<Rightarrow> Inr (a \<noteq> PNone \<and> a \<noteq> PStr ''''))
                 else Inr False)
          else Inr False)"

text \<open>The loop of lines 485 to 488 over the indices, \<open>vehicle_data\<close> being the list built so far.\<close>

fun collect_vehicles ::
  "pyval list \<Rightarrow> bool option list \<Rightarrow> pyval list \<Rightarrow> nat list \<Rightarrow> vehicle list \<Rightarrow> pyexc + vehicle list" where
  "collect_vehicles speed_list direct_list amp_list [] vehicle_data = Inr vehicle_data"
| "collect_vehicles speed_list direct_list amp_list (i # rest) vehicle_data =
     (case specified speed_list direct_list amp_list i of
        Inl e \<Rightarrow> Inl e
      | Inr True \<Rightarrow>
          collect_vehicles speed_list direct_list amp_list rest
            (vehicle_data @ [(speed_list ! i, direct_list ! i, amp_list ! i)])
      | Inr False \<Rightarrow> collect_vehicles speed_list direct_list amp_list rest vehicle_data)"

text \<open>The state of the loop of lines 492 to 508. \<open>calls\<close> is not a variable of the program:
  it counts the calls of \<^verbatim>\<open>create_sine\<close> the loop has made.\<close>

record loop_state =
  sine_wave_data :: "ndarray list"
  error :: bool
  gui :: effects
  calls :: nat

fun synth_loop ::
  "float_parser \<Rightarrow> main_window \<Rightarrow> pyval \<Rightarrow> vehicle list \<Rightarrow> loop_state \<Rightarrow> pyexc + loop_state" where
  "synth_loop P self duration [] st = Inr st"
| "synth_loop P self duration (vehicle # rest) st =
     (case create_sine P self (fst vehicle) (fst (snd vehicle)) duration (snd (snd vehicle)) of
        Inl e \<Rightarrow> Inl e
      | Inr (Str msg) \<Rightarrow>
          Inr (st\<lparr>error := True, gui := create_error_window msg (gui st), calls := calls st + 1\<rparr>)
      | Inr (NdArray channels) \<Rightarrow>
          synth_loop P self duration rest
            (st\<lparr>sine_wave_data := sine_wave_data st @ [channels], calls := calls st + 1\<rparr>))"

definition loop_start :: loop_state where
  "loop_start = \<lparr>sine_wave_data = [], error = False, gui = no_effects, calls = 0\<rparr>"

text \<open>Lines 521 to 524: the arrays are added to the first one. The arrays of one run have the
  same shape, since they share the duration.\<close>

definition mix :: "ndarray list \<Rightarrow> ndarray" where
  "mix swd = fold (\<lambda>b main_channel. np_add main_channel b) (tl swd) (hd swd)"

definition run_advanced ::
  "float_parser \<Rightarrow> main_window \<Rightarrow> pyval list \<Rightarrow> bool option list \<Rightarrow> pyval list \<Rightarrow> pyval
     \<Rightarrow> pyexc + effects" where
  "run_advanced P self speed_list direct_list amp_list duration =
     (case collect_vehicles speed_list direct_list amp_list [0..<length speed_list] [] of
        Inl e \<Rightarrow> Inl e
      | Inr vehicle_data \<Rightarrow>
          (case synth_loop P self duration vehicle_data loop_start of
             Inl e \<Rightarrow> Inl e
           | Inr st \<Rightarrow>
               if \<not> error st then
                 (if sine_wave_data st = [] then Inr (create_error_window ''DATA ERROR'' (gui st))
                  else play_normalized (mix (sine_wave_data st)) (gui st))
               else Inr (gui st)))"

definition run :: "float_parser \<Rightarrow> main_window \<Rightarrow> pyexc + effects" where
  "run P self =
     (if simple_shown self then run_simple P self
      else
        let w = advanced_win self in
        run_advanced P self (map PStr (get_speed w)) (map Some (get_direction w))
          (map PStr (get_amplitude w)) (PStr (get_duration w)))"

section \<open>A reader of decimal numerals\<close>

text \<open>Texts such as \<^verbatim>\<open>60\<close>, \<^verbatim>\<open>-1\<close> or \<^verbatim>\<open>0.5\<close>: an optional sign, digits and at
  most one point, with a digit somewhere. \<^verbatim>\<open>float()\<close> accepts each of them with the same
  value, and rejects the empty text and \<^verbatim>\<open>abc\<close> as this reader does. It stands for
  \<^verbatim>\<open>float()\<close> at the concrete inputs below, all of them texts of this kind.\<close>

definition digit_val :: "char \<Rightarrow> nat option" where
  "digit_val c =
     (let n = (of_char c :: nat) in if 48 \<le> n \<and> n \<le> 57 then Some (n - 48) else None)"

fun digits_val :: "string \<Rightarrow> nat \<Rightarrow> nat option" where
  "digits_val [] acc = Some acc"
| "digits_val (c # cs) acc =
     (case digit_val c of None \<Rightarrow> None | Some k \<Rightarrow> digits_val cs (10 * acc + k))"

definition unsigned_decimal :: "string \<Rightarrow> real option" where
  "unsigned_decimal body =
     (let ip = takeWhile (\<lambda>c. c \<noteq> CHR ''.'') body;
          fp = drop (length ip + 1) body
      in if ip = [] \<and> fp = [] then None
         else (case digits_val ip 0 of
                 None \<Rightarrow> None
               | Some a \<Rightarrow>
                   (case digits_val fp 0 of
                      None \<Rightarrow> None
                    | Some b \<Rightarrow> Some (real a + real b / 10 ^ length fp))))"

definition decimal_float :: float_parser where
  "decimal_float s =
     (case s of
        [] \<Rightarrow> None
      | c # body \<Rightarrow>
          if c = CHR ''-'' then map_option uminus (unsigned_decimal body)
          else if c = CHR ''+'' then unsigned_decimal body
          else unsigned_decimal s)"

section \<open>The windows when the program starts\<close>

text \<open>\<^verbatim>\<open>SimpleWindow.init\<close>, \<^verbatim>\<open>AdvancedWindow.init\<close> and \<^verbatim>\<open>MainWindow.__init__\<close>: empty
  entries, no button pressed but the K band, the simple window shown.\<close>

definition simple_init :: simple_window where
  "simple_init = \<lparr>speed_entry = '''', dur_entry = '''', appro_rad = False, recede_rad = False\<rparr>"

definition advanced_init :: "nat \<Rightarrow> advanced_window" where
  "advanced_init num_vehicles =
     \<lparr>adv_dur_entry = '''', speed_entries = replicate num_vehicles '''',
      appr_buttons = replicate num_vehicles False, amp_entries = replicate num_vehicles ''''\<rparr>"

definition main_window_init :: main_window where
  "main_window_init =
     \<lparr>metric_button = False, kband_rad = True, kaband_rad = False, xband_rad = False,
      simple_shown = True, simple_win = simple_init, advanced_win = advanced_init 3\<rparr>"

section \<open>Notions of the specification\<close>


text \<open>A vehicle is fully specified when its speed, direction and amplitude are present and not empty.\<close>

definition fully_specified :: "vehicle \<Rightarrow> bool" where
  "fully_specified v =
     (fst v \<noteq> PNone \<and> fst v \<noteq> PStr '''' \<and> fst (snd v) \<noteq> None
      \<and> snd (snd v) \<noteq> PNone \<and> snd (snd v) \<noteq> PStr '''')"

text \<open>The largest absolute sample of an array, over both channels.\<close>

definition peak :: "ndarray \<Rightarrow> real" where
  "peak a = Max (abs ` set (ravel a))"

text \<open>The synthesis of one vehicle of the list, as line 496 calls it.\<close>

abbreviation (input) synth ::
  "float_parser \<Rightarrow> main_window \<Rightarrow> pyval \<Rightarrow> vehicle \<Rightarrow> pyexc + pyret" where
  "synth P self duration v \<equiv> create_sine P self (fst v) (fst (snd v)) duration (snd (snd v))"

section \<open>Properties of the model\<close>

subsection \<open>The reader of decimal numerals at the inputs used below\<close>

lemma decimal_float_60: "decimal_float ''60'' = Some 60"
  by (simp add: decimal_float_def unsigned_decimal_def digit_val_def)

lemma decimal_float_70: "decimal_float ''70'' = Some 70"
  by (simp add: decimal_float_def unsigned_decimal_def digit_val_def)

lemma decimal_float_1: "decimal_float ''1'' = Some 1"
  by (simp add: decimal_float_def unsigned_decimal_def digit_val_def)

lemma decimal_float_2: "decimal_float ''2'' = Some 2"
  by (simp add: decimal_float_def unsigned_decimal_def digit_val_def)

lemma decimal_float_short: "decimal_float ''0.00005'' = Some (5 / 100000)"
  by (simp add: decimal_float_def unsigned_decimal_def digit_val_def)


lemma decimal_float_abc: "decimal_float ''abc'' = None"
  by (simp add: decimal_float_def unsigned_decimal_def digit_val_def)

lemma decimal_float_empty: "decimal_float '''' = None"
  by (simp add: decimal_float_def)

lemma py_round_short: "py_round (441 / 200) = 2"
  by (simp add: py_round_def)

lemma upto_1_2: "[1..2] = [1, 2 :: int]"
  by (simp add: upto.simps)

subsection \<open>Synthesis\<close>

lemma transpose_two_channels:
  "transpose [map f xs, map g xs] = map (\<lambda>x. [f x, g x]) xs"
  by (induction xs) simp_all

lemma calc_frequency_selected:
  assumes "kband_rad self \<or> kaband_rad self \<or> xband_rad self"
  shows "\<exists>g. calc_frequency self v = Some g"
  unfolding calc_frequency_def Let_def using assms by (simp only: split: if_split) blast

lemma create_sine_parsed:
  assumes "py_float P speed_units = Inr s" and "py_float P duration = Inr d"
    and "py_float P amplitude = Inr a"
    and "calc_frequency self (meters_per_sec self s) = Some f"
  shows "create_sine P self speed_units (Some towards) duration amplitude =
           Inr (NdArray (map (\<lambda>i. [cos (2 * pi * f * of_int i / 44100) * a,
                 1.9 * cos (2 * pi * f * of_int i / 44100 - (if towards then pi / 2 else - (pi / 2))) * a])
               [1..py_round (d * 44100)]))"
  using assms
  by (simp add: create_sine_def Let_def arange_def ch_1_data_def ch_2_data_def
      transpose_two_channels np_scale_def FREQUENCY_SAMPLE_def o_def)


lemma create_sine_no_direction:
  "create_sine P self sp None du am = Inr (Str ''DIR ERROR'')"
  by (simp add: create_sine_def)

lemma create_sine_messages:
  assumes "create_sine P self sp (Some towards) du am = Inr (Str msg)"
  shows "msg = ''CONVERT ERROR'' \<or> msg = ''TRANSMIT FREQ ERROR''"
  using assms
  by (auto simp: create_sine_def Let_def convert_handler_def
      split: sum.splits option.splits if_splits)

lemma create_sine_never_data_error:
  assumes "create_sine P self sp direction du am = Inr (Str msg)"
  shows "msg \<noteq> ''DATA ERROR''"
proof (cases direction)
  case None
  with assms show ?thesis by (auto simp: create_sine_no_direction)
next
  case (Some towards)
  with assms create_sine_messages [of P self sp towards du am msg] show ?thesis by auto
qed


lemma create_sine_unparsed_amplitude:
  assumes "P s = Some x" and "P d = Some y" and "P a = None"
  shows "create_sine P self (PStr s) (Some towards) (PStr d) (PStr a) = Inr (Str ''CONVERT ERROR'')"
  using assms by (simp add: create_sine_def convert_handler_def)

subsection \<open>The selection of the vehicles\<close>

lemma specified_in_range:
  assumes "i < length sl" and "i < length dl" and "i < length al"
  shows "specified sl dl al i = Inr (fully_specified (sl ! i, dl ! i, al ! i))"
  using assms by (simp add: specified_def index_def fully_specified_def)

lemma collect_vehicles_filter:
  assumes "\<forall>i\<in>set ixs. i < length sl \<and> i < length dl \<and> i < length al"
  shows "collect_vehicles sl dl al ixs vd =
           Inr (vd @ filter fully_specified (map (\<lambda>i. (sl ! i, dl ! i, al ! i)) ixs))"
  using assms
  by (induction ixs arbitrary: vd) (simp_all add: specified_in_range)

lemma rows_as_zip:
  assumes "length dl = length sl" and "length al = length sl"
  shows "map (\<lambda>i. (sl ! i, dl ! i, al ! i)) [0..<length sl] = zip sl (zip dl al)"
  using assms by (intro nth_equalityI) simp_all

lemma collect_vehicles_zip:
  assumes "length dl = length sl" and "length al = length sl"
  shows "collect_vehicles sl dl al [0..<length sl] [] = Inr (filter fully_specified (zip sl (zip dl al)))"
proof -
  have "\<forall>i\<in>set [0..<length sl]. i < length sl \<and> i < length dl \<and> i < length al"
    using assms by simp
  from collect_vehicles_filter [OF this, of "[]"] show ?thesis
    by (simp add: rows_as_zip [OF assms])
qed

lemma zip_of_columns:
  "zip (map fst vd) (zip (map (fst \<circ> snd) vd) (map (snd \<circ> snd) vd)) = vd"
  by (induction vd) auto

lemma specified_direction:
  assumes "specified sl dl al i = Inr True"
  shows "dl ! i \<noteq> None"
  using assms
  by (auto simp: specified_def index_def split: sum.splits if_splits)

lemma collect_vehicles_directions:
  assumes "collect_vehicles sl dl al ixs vd = Inr vd'"
    and "\<forall>v\<in>set vd. fst (snd v) \<noteq> None"
  shows "\<forall>v\<in>set vd'. fst (snd v) \<noteq> None"
  using assms
proof (induction ixs arbitrary: vd)
  case Nil
  then show ?case by simp
next
  case (Cons i ixs)
  show ?case
  proof (cases "specified sl dl al i")
    case (Inl e)
    with Cons.prems(1) show ?thesis by simp
  next
    case (Inr keep)
    show ?thesis
    proof (cases keep)
      case True
      with Inr have "dl ! i \<noteq> None" by (simp add: specified_direction)
      with Cons.prems(2)
      have "\<forall>v\<in>set (vd @ [(sl ! i, dl ! i, al ! i)]). fst (snd v) \<noteq> None" by simp
      moreover have "collect_vehicles sl dl al ixs (vd @ [(sl ! i, dl ! i, al ! i)]) = Inr vd'"
        using Cons.prems(1) Inr True by simp
      ultimately show ?thesis by (rule Cons.IH [rotated])
    next
      case False
      with Inr Cons.prems(1) have "collect_vehicles sl dl al ixs vd = Inr vd'" by simp
      then show ?thesis using Cons.prems(2) by (rule Cons.IH)
    qed
  qed
qed

subsection \<open>The loop over the vehicles\<close>

lemma loop_start_fields:
  "\<not> error loop_start" "gui loop_start = no_effects" "sine_wave_data loop_start = []"
  "calls loop_start = 0"
  by (simp_all add: loop_start_def)

lemma synth_loop_result:
  assumes "synth_loop P self duration vs st = Inr st'" and "\<not> error st"
  shows "(\<not> error st' \<and> gui st' = gui st
            \<and> length (sine_wave_data st') = length (sine_wave_data st) + length vs)
         \<or> (error st' \<and> (\<exists>v\<in>set vs. \<exists>msg. synth P self duration v = Inr (Str msg)
                \<and> gui st' = create_error_window msg (gui st)))"
  using assms
proof (induction vs arbitrary: st)
  case Nil
  then show ?case by simp
next
  case (Cons v vs)
  show ?case
  proof (cases "synth P self duration v")
    case (Inl e)
    with Cons.prems(1) show ?thesis by simp
  next
    case (Inr r)
    show ?thesis
    proof (cases r)
      case (Str msg)
      with Inr Cons.prems(1) show ?thesis by auto
    next
      case (NdArray channels)
      let ?st = "st\<lparr>sine_wave_data := sine_wave_data st @ [channels], calls := calls st + 1\<rparr>"
      have "synth_loop P self duration vs ?st = Inr st'"
        using Cons.prems(1) Inr NdArray by simp
      moreover have "\<not> error ?st" using Cons.prems(2) by simp
      ultimately have "(\<not> error st' \<and> gui st' = gui ?st
            \<and> length (sine_wave_data st') = length (sine_wave_data ?st) + length vs)
         \<or> (error st' \<and> (\<exists>v\<in>set vs. \<exists>msg. synth P self duration v = Inr (Str msg)
                \<and> gui st' = create_error_window msg (gui ?st)))"
        by (rule Cons.IH)
      then show ?thesis by auto
    qed
  qed
qed

lemma synth_loop_first_failure:
  assumes "\<forall>u\<in>set pre. \<exists>b. synth P self duration u = Inr (NdArray b)"
    and "synth P self duration v = Inr (Str msg)"
  shows "\<exists>st'. synth_loop P self duration (pre @ v # post) st = Inr st' \<and> error st'
           \<and> gui st' = create_error_window msg (gui st)
           \<and> calls st' = calls st + length pre + 1"
  using assms(1)
proof (induction pre arbitrary: st)
  case Nil
  show ?case using assms(2) by simp
next
  case (Cons u pre)
  from Cons.prems obtain b where b: "synth P self duration u = Inr (NdArray b)" by auto
  let ?st = "st\<lparr>sine_wave_data := sine_wave_data st @ [b], calls := calls st + 1\<rparr>"
  from Cons.prems have "\<forall>u\<in>set pre. \<exists>b. synth P self duration u = Inr (NdArray b)" by simp
  from Cons.IH [OF this, of ?st] b show ?case by simp
qed

lemma synth_loop_some_failure:
  assumes "synth_loop P self duration vs st = Inr st'"
    and "\<exists>v\<in>set vs. \<exists>msg. synth P self duration v = Inr (Str msg)"
  shows "error st'"
  using assms
proof (induction vs arbitrary: st)
  case Nil
  then show ?case by simp
next
  case (Cons v vs)
  show ?case
  proof (cases "synth P self duration v")
    case (Inl e)
    with Cons.prems(1) show ?thesis by simp
  next
    case (Inr r)
    show ?thesis
    proof (cases r)
      case (Str msg)
      with Inr Cons.prems(1) show ?thesis by auto
    next
      case (NdArray channels)
      with Inr Cons.prems(2)
      have "\<exists>v\<in>set vs. \<exists>msg. synth P self duration v = Inr (Str msg)" by auto
      moreover have "synth_loop P self duration vs
          (st\<lparr>sine_wave_data := sine_wave_data st @ [channels], calls := calls st + 1\<rparr>) = Inr st'"
        using Cons.prems(1) Inr NdArray by simp
      ultimately show ?thesis by (rule Cons.IH [rotated])
    qed
  qed
qed

lemma run_advanced_outcomes:
  assumes "run_advanced P self sl dl al du = Inr fx"
  shows "\<exists>vd. collect_vehicles sl dl al [0..<length sl] [] = Inr vd
           \<and> ((vd = [] \<and> fx = \<lparr>error_windows = [''DATA ERROR''], played = []\<rparr>)
              \<or> (vd \<noteq> [] \<and> (\<exists>scaled. fx = \<lparr>error_windows = [], played = [scaled]\<rparr>)
                   \<and> (\<forall>v\<in>set vd. \<forall>m. synth P self du v \<noteq> Inr (Str m)))
              \<or> (\<exists>v\<in>set vd. \<exists>msg. synth P self du v = Inr (Str msg)
                   \<and> fx = \<lparr>error_windows = [msg], played = []\<rparr>))"
proof (cases "collect_vehicles sl dl al [0..<length sl] []")
  case (Inl e)
  with assms show ?thesis by (simp add: run_advanced_def)
next
  case vd: (Inr vd)
  show ?thesis
  proof (cases "synth_loop P self du vd loop_start")
    case (Inl e)
    with assms vd show ?thesis by (simp add: run_advanced_def)
  next
    case st: (Inr st)
    from synth_loop_result [OF st loop_start_fields(1)]
    consider (ok) "\<not> error st" "gui st = no_effects" "length (sine_wave_data st) = length vd"
      | (failed) v msg where "error st" "v \<in> set vd" "synth P self du v = Inr (Str msg)"
          "gui st = create_error_window msg no_effects"
      by (auto simp: loop_start_fields)
    then show ?thesis
    proof cases
      case ok
      show ?thesis
      proof (cases "vd = []")
        case True
        with ok assms vd st show ?thesis
          by (simp add: run_advanced_def create_error_window_def no_effects_def)
      next
        case False
        with ok have swd: "sine_wave_data st \<noteq> []" by auto
        with assms vd st ok
        have "play_normalized (mix (sine_wave_data st)) no_effects = Inr fx"
          by (simp add: run_advanced_def)
        then have "\<exists>scaled. fx = \<lparr>error_windows = [], played = [scaled]\<rparr>"
          by (auto simp: play_normalized_def play_def no_effects_def split: sum.splits)
        moreover have "\<forall>v\<in>set vd. \<forall>m. synth P self du v \<noteq> Inr (Str m)"
          using synth_loop_some_failure [OF st] ok(1) by blast
        ultimately show ?thesis using vd False by simp
      qed
    next
      case failed
      with assms vd st have "fx = \<lparr>error_windows = [msg], played = []\<rparr>"
        by (simp add: run_advanced_def create_error_window_def no_effects_def)
      with failed vd show ?thesis by blast
    qed
  qed
qed

lemma run_advanced_no_vehicle:
  assumes "collect_vehicles sl dl al [0..<length sl] [] = Inr []"
  shows "run_advanced P self sl dl al du = Inr \<lparr>error_windows = [''DATA ERROR''], played = []\<rparr>"
  using assms
  by (simp add: run_advanced_def loop_start_def create_error_window_def no_effects_def)

subsection \<open>The division by the maximum\<close>

lemma ravel_map: "ravel (map (map f) a) = map f (ravel a)"
  by (simp add: ravel_def map_concat)

lemma ravel_np_abs: "ravel (np_abs a) = map abs (ravel a)"
  by (simp add: np_abs_def ravel_map)

lemma np_amax_empty:
  assumes "ravel a = []"
  shows "np_amax (np_abs a) = Inl ValueError"
  using assms by (simp add: np_amax_def ravel_np_abs)

lemma np_amax_peak:
  assumes "ravel a \<noteq> []"
  shows "np_amax (np_abs a) = Inr (peak a)"
proof -
  from assms obtain x xs where xs: "ravel a = x # xs" by (cases "ravel a") auto
  then have "np_amax (np_abs a) = Inr (fold max (map abs xs) \<bar>x\<bar>)"
    by (simp add: np_amax_def ravel_np_abs)
  also have "fold max (map abs xs) \<bar>x\<bar> = Max (set (\<bar>x\<bar> # map abs xs))"
    by (simp only: Max.set_eq_fold)
  also have "set (\<bar>x\<bar> # map abs xs) = abs ` set (ravel a)"
    using xs by simp
  finally show ?thesis by (simp add: peak_def)
qed

lemma peak_bounds:
  assumes "x \<in> set (ravel a)"
  shows "\<bar>x\<bar> \<le> peak a" and "\<exists>y\<in>set (ravel a). \<bar>y\<bar> = peak a"
proof -
  have fin: "finite (abs ` set (ravel a))" by simp
  have ne: "abs ` set (ravel a) \<noteq> {}" using assms by auto
  show "\<bar>x\<bar> \<le> peak a"
    unfolding peak_def using fin assms by (intro Max_ge) auto
  from Max_in [OF fin ne] show "\<exists>y\<in>set (ravel a). \<bar>y\<bar> = peak a"
    unfolding peak_def by auto
qed

lemma peak_positive:
  assumes "x \<in> set (ravel a)" and "x \<noteq> 0"
  shows "0 < peak a"
proof -
  have "0 < \<bar>x\<bar>" using assms(2) by simp
  also have "\<bar>x\<bar> \<le> peak a" by (rule peak_bounds(1) [OF assms(1)])
  finally show ?thesis .
qed

lemma normalize_nonzero_peak:
  assumes "ravel a \<noteq> []" and "peak a \<noteq> 0"
  shows "normalize_channels a = Inr (map (map (\<lambda>x. Fin (x / peak a))) a)"
  using assms by (simp add: normalize_channels_def np_amax_peak np_true_divide_def np_divide_def)

lemma peak_scaled:
  assumes "x \<in> set (ravel a)" and "0 < peak a"
  shows "peak (map (map (\<lambda>x. x / peak a)) a) = 1"
proof -
  let ?m = "peak a"
  have img: "abs ` set (ravel (map (map (\<lambda>x. x / ?m)) a)) = (\<lambda>x. \<bar>x\<bar> / ?m) ` set (ravel a)"
    using assms(2) by (simp add: ravel_map image_image)
  have "Max ((\<lambda>x. \<bar>x\<bar> / ?m) ` set (ravel a)) = 1"
  proof (rule Max_eqI)
    show "finite ((\<lambda>x. \<bar>x\<bar> / ?m) ` set (ravel a))" by simp
  next
    fix y assume "y \<in> (\<lambda>x. \<bar>x\<bar> / ?m) ` set (ravel a)"
    then obtain z where z: "z \<in> set (ravel a)" and y: "y = \<bar>z\<bar> / ?m" by auto
    from peak_bounds(1) [OF z] assms(2) y show "y \<le> 1" by simp
  next
    from peak_bounds(2) [OF assms(1)] obtain z where "z \<in> set (ravel a)" and "\<bar>z\<bar> = ?m"
      by blast
    with assms(2) show "1 \<in> (\<lambda>x. \<bar>x\<bar> / ?m) ` set (ravel a)"
      by (auto simp: image_iff intro!: bexI [of _ z])
  qed
  with img show ?thesis by (simp add: peak_def)
qed

lemma normalize_silent:
  assumes "ravel a \<noteq> []" and "\<forall>x\<in>set (ravel a). x = 0"
  shows "normalize_channels a = Inr (map (map (\<lambda>x. NaN)) a)"
proof -
  from assms have "abs ` set (ravel a) = {0}" by (cases "ravel a") auto
  then have "peak a = 0" by (simp add: peak_def)
  moreover have "\<forall>row\<in>set a. \<forall>x\<in>set row. x = 0"
    using assms(2) by (auto simp: ravel_def)
  then have "map (map (\<lambda>x. np_divide x 0)) a = map (map (\<lambda>x. NaN)) a"
    by (auto simp: np_divide_def)
  ultimately show ?thesis
    using assms(1) by (simp add: normalize_channels_def np_amax_peak np_true_divide_def)
qed

section \<open>The claims\<close>

subsection \<open>C1: a silent buffer and the division by the peak\<close>

text \<open>C1 says that the normalization returns an all-zero buffer unchanged, the division being
  guarded against a zero peak. The program has no such guard: lines 461 and 462, and 530 and
  531, divide by \<^verbatim>\<open>maximum\<close> whatever it is. In the advanced window with
  the K band, one vehicle of speed \<^verbatim>\<open>60\<close> and amplitude
  \<^verbatim>\<open>0\<close> and the duration \<^verbatim>\<open>0.00005\<close> give the
  buffer of two all-zero rows; its maximum is 0, every sample becomes 0/0, and the array handed
  to \<^verbatim>\<open>sounddevice.play\<close> holds \<^verbatim>\<open>nan\<close> only, not
  the zeros.\<close>

theorem silent_buffer_not_guarded:
  "run decimal_float
     (main_window_init
        \<lparr>simple_shown := False,
         advanced_win := \<lparr>adv_dur_entry = ''0.00005'', speed_entries = [''60'', '''', ''''],
           appr_buttons = [False, False, False], amp_entries = [''0'', '''', '''']\<rparr>\<rparr>) =
   Inr \<lparr>error_windows = [], played = [[[NaN, NaN], [NaN, NaN]]]\<rparr>"
proof -
  let ?self = "main_window_init
        \<lparr>simple_shown := False,
         advanced_win := \<lparr>adv_dur_entry = ''0.00005'', speed_entries = [''60'', '''', ''''],
           appr_buttons = [False, False, False], amp_entries = [''0'', '''', '''']\<rparr>\<rparr>"
  let ?sl = "[PStr ''60'', PStr '''', PStr '''']"
  let ?dl = "[Some True, Some True, Some True]"
  let ?al = "[PStr ''0'', PStr '''', PStr '''']"
  have vd: "collect_vehicles ?sl ?dl ?al [0..<length ?sl] [] = Inr [(PStr ''60'', Some True, PStr ''0'')]"
    by (simp add: specified_def index_def)
  have f: "\<exists>g. calc_frequency ?self (meters_per_sec ?self 60) = Some g"
    by (intro calc_frequency_selected) (simp add: main_window_init_def)
  then obtain g where g: "calc_frequency ?self (meters_per_sec ?self 60) = Some g" ..
  have a0: "decimal_float ''0'' = Some 0"
    by (simp add: decimal_float_def unsigned_decimal_def digit_val_def)
  have cs: "create_sine decimal_float ?self (PStr ''60'') (Some True) (PStr ''0.00005'') (PStr ''0'') =
      Inr (NdArray [[0, 0], [0, 0]])"
    using create_sine_parsed [of decimal_float "PStr ''60''" 60 "PStr ''0.00005''" "5 / 100000"
        "PStr ''0''" 0 ?self g True] g
    by (simp add: decimal_float_60 decimal_float_short a0 py_round_short upto_1_2)
  have norm: "normalize_channels [[0, 0], [0, 0]] = Inr [[NaN, NaN], [NaN, NaN]]"
    using normalize_silent [of "[[0, 0], [0, 0]]"] by (simp add: ravel_def)
  have "run_advanced decimal_float ?self ?sl ?dl ?al (PStr ''0.00005'') =
      Inr \<lparr>error_windows = [], played = [[[NaN, NaN], [NaN, NaN]]]\<rparr>"
    using vd cs norm
    by (simp add: run_advanced_def loop_start_def mix_def play_normalized_def play_def
        no_effects_def)
  then show ?thesis
    by (simp add: run_def Let_def main_window_init_def get_speed_def get_direction_def
        get_amplitude_def get_duration_def)
qed

subsection \<open>C2: the samples of a synthesized vehicle\<close>

text \<open>C2: when the direction is specified, speed, duration and amplitude are parsed to
  \<open>s\<close>, \<open>d\<close> and \<open>a\<close>, and a band is selected, so that
  \<^verbatim>\<open>calc_frequency\<close> returns the beat frequency,
  \<^verbatim>\<open>create_sine\<close> returns the array whose row \<open>i\<close>, for
  \<open>i\<close> from 1 to \<open>N = round (d * 44100)\<close>, is the left sample \<open>a *
  cos (2 pi f i / 44100)\<close> and the right sample \<open>a * 1.9 * cos (2 pi f i / 44100 -
  phase)\<close>, the phase being \<open>pi / 2\<close> for an approaching and \<open>- pi /
  2\<close> for a receding vehicle.\<close>

theorem synthesis_samples:
  assumes "py_float P speed_units = Inr s" and "py_float P duration = Inr d"
    and "py_float P amplitude = Inr a"
    and "calc_frequency self (meters_per_sec self s) = Some beat_frequency"
  shows "create_sine P self speed_units (Some towards) duration amplitude =
           Inr (NdArray (map (\<lambda>i. [a * cos (2 * pi * beat_frequency * of_int i / 44100),
                 a * 1.9 * cos (2 * pi * beat_frequency * of_int i / 44100
                                 - (if towards then pi / 2 else - (pi / 2)))])
               [1..py_round (d * 44100)]))"
  by (simp add: create_sine_parsed [OF assms] mult.commute)

text \<open>C2, at a concrete input. At 60 mph in the K band, towards the radar, for 0.00005 s at
  amplitude 2: two rows.\<close>

theorem synthesis_samples_witness:
  "py_float decimal_float (PStr ''60'') = Inr 60
   \<and> py_float decimal_float (PStr ''0.00005'') = Inr (5 / 100000)
   \<and> py_float decimal_float (PStr ''2'') = Inr 2
   \<and> calc_frequency main_window_init (meters_per_sec main_window_init 60) =
       Some (2 * 24150000000 * (60 * (1609.34 / 3600)) / 299792458)
   \<and> create_sine decimal_float main_window_init (PStr ''60'') (Some True) (PStr ''0.00005'')
         (PStr ''2'') =
       Inr (NdArray
         [[2 * cos (2 * pi * (2 * 24150000000 * (60 * (1609.34 / 3600)) / 299792458) * 1 / 44100),
           2 * 1.9 * cos (2 * pi * (2 * 24150000000 * (60 * (1609.34 / 3600)) / 299792458) * 1 / 44100
                          - pi / 2)],
          [2 * cos (2 * pi * (2 * 24150000000 * (60 * (1609.34 / 3600)) / 299792458) * 2 / 44100),
           2 * 1.9 * cos (2 * pi * (2 * 24150000000 * (60 * (1609.34 / 3600)) / 299792458) * 2 / 44100
                          - pi / 2)]])"
proof -
  have s: "py_float decimal_float (PStr ''60'') = Inr 60"
    by (simp add: decimal_float_60)
  have d: "py_float decimal_float (PStr ''0.00005'') = Inr (5 / 100000)"
    by (simp add: decimal_float_short)
  have a: "py_float decimal_float (PStr ''2'') = Inr 2"
    by (simp add: decimal_float_2)
  have f: "calc_frequency main_window_init (meters_per_sec main_window_init 60) =
       Some (2 * 24150000000 * (60 * (1609.34 / 3600)) / 299792458)"
    by (simp add: calc_frequency_def meters_per_sec_def main_window_init_def)
  show ?thesis
    using s d a f synthesis_samples [OF s d a f, of True]
    by (simp add: py_round_short upto_1_2)
qed

subsection \<open>C3: the Doppler equation\<close>

text \<open>C3: for the selected band, the first active one of K, Ka and X in the order of the tests, the
  beat frequency of a velocity \<open>v\<close> in meters per second is \<open>2 * carrier * v /
  299792458\<close> with the carrier 24.150e9, 34.7e9 or 10.525e9 Hz; it is 0 at \<open>v =
  0\<close> and linear in \<open>v\<close>.\<close>

theorem doppler_equation:
  "(kband_rad self \<longrightarrow>
      calc_frequency self v = Some ((2 * (24.150 * 10 ^ 9) * v) / 299792458))
   \<and> (\<not> kband_rad self \<and> kaband_rad self \<longrightarrow>
      calc_frequency self v = Some ((2 * (34.7 * 10 ^ 9) * v) / 299792458))
   \<and> (\<not> kband_rad self \<and> \<not> kaband_rad self \<and> xband_rad self \<longrightarrow>
      calc_frequency self v = Some ((2 * (10.525 * 10 ^ 9) * v) / 299792458))
   \<and> (kband_rad self \<or> kaband_rad self \<or> xband_rad self \<longrightarrow>
      calc_frequency self 0 = Some 0
      \<and> calc_frequency self (k * v) = map_option (\<lambda>f. k * f) (calc_frequency self v))"
  by (simp add: calc_frequency_def Let_def)

text \<open>C3, at a concrete input. The K band, selected when the program starts, at 10 m/s.\<close>

theorem doppler_equation_witness:
  "kband_rad main_window_init
   \<and> calc_frequency main_window_init 10 = Some ((2 * (24.150 * 10 ^ 9) * 10) / 299792458)
   \<and> calc_frequency main_window_init 0 = Some 0
   \<and> calc_frequency main_window_init (3 * 10) =
       map_option (\<lambda>f. 3 * f) (calc_frequency main_window_init 10)"
  using doppler_equation [of main_window_init 10 3]
  by (simp add: main_window_init_def)

subsection \<open>C4: normalization by the peak of the whole buffer\<close>

text \<open>C4: a buffer with a sample that is not zero has a positive peak, the largest absolute sample
  over both channels; the normalization divides every sample of every row by this one number,
  the peak of the result is 1, and the ratio between any two samples is kept.\<close>

theorem normalize_peak:
  assumes "\<exists>x\<in>set (ravel channels). x \<noteq> 0"
  shows "0 < peak channels
         \<and> (\<forall>x\<in>set (ravel channels). \<bar>x\<bar> \<le> peak channels)
         \<and> normalize_channels channels = Inr (map (map (\<lambda>x. Fin (x / peak channels))) channels)
         \<and> peak (map (map (\<lambda>x. x / peak channels)) channels) = 1
         \<and> (\<forall>x\<in>set (ravel channels). \<forall>y\<in>set (ravel channels).
               (x / peak channels) * y = (y / peak channels) * x)"
proof -
  from assms obtain x where x: "x \<in> set (ravel channels)" and nz: "x \<noteq> 0" by blast
  have pos: "0 < peak channels" by (rule peak_positive [OF x nz])
  have ne: "ravel channels \<noteq> []" using x by auto
  have "normalize_channels channels = Inr (map (map (\<lambda>x. Fin (x / peak channels))) channels)"
    using pos by (intro normalize_nonzero_peak [OF ne]) simp
  moreover have "peak (map (map (\<lambda>x. x / peak channels)) channels) = 1"
    by (rule peak_scaled [OF x pos])
  moreover have "\<forall>x\<in>set (ravel channels). \<bar>x\<bar> \<le> peak channels"
    using peak_bounds(1) by blast
  ultimately show ?thesis using pos by simp
qed

text \<open>C4, at a concrete input. A buffer of two rows with the peak 2 in the right channel.\<close>

theorem normalize_peak_witness:
  "(2 :: real) \<in> set (ravel [[1, 2], [- 1, 0]]) \<and> (2 :: real) \<noteq> 0
   \<and> peak [[1, 2], [- 1, 0]] = 2
   \<and> normalize_channels [[1, 2], [- 1, 0]] = Inr [[Fin (1 / 2), Fin 1], [Fin (- 1 / 2), Fin 0]]
   \<and> peak [[1 / 2, 1], [- 1 / 2, 0]] = 1"
proof -
  have h: "\<exists>x\<in>set (ravel [[1, 2], [- 1, 0 :: real]]). x \<noteq> 0"
    by (simp add: ravel_def)
  have p: "peak [[1, 2], [- 1, 0]] = 2"
    by (simp add: peak_def ravel_def)
  from normalize_peak [OF h] show ?thesis by (simp add: p ravel_def)
qed

subsection \<open>C5: the length of the synthesized buffer\<close>




subsection \<open>C6: the first failing vehicle ends the run\<close>

text \<open>C6: in a run of the advanced window, let \<open>vehicle_data\<close> be the retained vehicles.
  When the vehicles \<open>pre\<close> are synthesized and the next vehicle \<open>v\<close>
  returns the error text \<open>msg\<close>, the run shows the dialog of \<open>msg\<close> and
  plays nothing, and the loop has called \<^verbatim>\<open>create_sine\<close> once for each
  vehicle of \<open>pre\<close> and once for \<open>v\<close>: the vehicles after
  \<open>v\<close> are not synthesized. Whenever the synthesis of some retained vehicle returns
  an error text, a run that comes to its end has played nothing.\<close>

theorem fail_fast:
  assumes "collect_vehicles speed_list direct_list amp_list [0..<length speed_list] [] =
             Inr vehicle_data"
  shows "(vehicle_data = pre @ v # post
            \<and> (\<forall>u\<in>set pre. \<exists>b. synth P self duration u = Inr (NdArray b))
            \<and> synth P self duration v = Inr (Str msg) \<longrightarrow>
          run_advanced P self speed_list direct_list amp_list duration =
            Inr \<lparr>error_windows = [msg], played = []\<rparr>
          \<and> (\<exists>st. synth_loop P self duration vehicle_data loop_start = Inr st
                \<and> error st \<and> calls st = length pre + 1))
         \<and> ((\<exists>u\<in>set vehicle_data. \<exists>m. synth P self duration u = Inr (Str m)) \<longrightarrow>
             (\<forall>fx. run_advanced P self speed_list direct_list amp_list duration = Inr fx \<longrightarrow>
                   played fx = []))"
proof -
  have first: "run_advanced P self speed_list direct_list amp_list duration =
            Inr \<lparr>error_windows = [msg], played = []\<rparr>
          \<and> (\<exists>st. synth_loop P self duration vehicle_data loop_start = Inr st
                \<and> error st \<and> calls st = length pre + 1)"
    if vd: "vehicle_data = pre @ v # post"
      and pre: "\<forall>u\<in>set pre. \<exists>b. synth P self duration u = Inr (NdArray b)"
      and v: "synth P self duration v = Inr (Str msg)"
  proof -
    from synth_loop_first_failure [OF pre v, of post loop_start]
    obtain st where st: "synth_loop P self duration (pre @ v # post) loop_start = Inr st"
      and e: "error st" and g: "gui st = create_error_window msg (gui loop_start)"
      and c: "calls st = calls loop_start + length pre + 1"
      by blast
    have "run_advanced P self speed_list direct_list amp_list duration = Inr (gui st)"
      using assms vd st e by (simp add: run_advanced_def)
    with g st e c vd show ?thesis
      by (simp add: loop_start_fields create_error_window_def no_effects_def)
  qed
  have anyf: "played fx = []"
    if some: "\<exists>u\<in>set vehicle_data. \<exists>m. synth P self duration u = Inr (Str m)"
      and run: "run_advanced P self speed_list direct_list amp_list duration = Inr fx" for fx
    using run_advanced_outcomes [OF run] assms some by auto
  from first anyf show ?thesis by blast
qed

text \<open>C6, at a concrete input. Three vehicles with all their parts, the second with the amplitude
  \<^verbatim>\<open>abc\<close>: two calls, the dialog of the conversion error, nothing played.\<close>

theorem fail_fast_witness:
  "collect_vehicles [PStr ''60'', PStr ''70'', PStr ''60''] [Some True, Some False, Some True]
      [PStr ''1'', PStr ''abc'', PStr ''1''] [0..<length [PStr ''60'', PStr ''70'', PStr ''60'']] [] =
     Inr ([(PStr ''60'', Some True, PStr ''1'')] @ (PStr ''70'', Some False, PStr ''abc'')
            # [(PStr ''60'', Some True, PStr ''1'')])
   \<and> (\<exists>b. create_sine decimal_float main_window_init (PStr ''60'') (Some True) (PStr ''0.00005'')
            (PStr ''1'') = Inr (NdArray b))
   \<and> create_sine decimal_float main_window_init (PStr ''70'') (Some False) (PStr ''0.00005'')
        (PStr ''abc'') = Inr (Str ''CONVERT ERROR'')
   \<and> run_advanced decimal_float main_window_init [PStr ''60'', PStr ''70'', PStr ''60'']
        [Some True, Some False, Some True] [PStr ''1'', PStr ''abc'', PStr ''1''] (PStr ''0.00005'') =
       Inr \<lparr>error_windows = [''CONVERT ERROR''], played = []\<rparr>
   \<and> (\<exists>st. synth_loop decimal_float main_window_init (PStr ''0.00005'')
              ([(PStr ''60'', Some True, PStr ''1'')] @ (PStr ''70'', Some False, PStr ''abc'')
                 # [(PStr ''60'', Some True, PStr ''1'')]) loop_start = Inr st
          \<and> error st \<and> calls st = 2)"
proof -
  let ?sl = "[PStr ''60'', PStr ''70'', PStr ''60'']"
  let ?dl = "[Some True, Some False, Some True]"
  let ?al = "[PStr ''1'', PStr ''abc'', PStr ''1'']"
  let ?u = "(PStr ''60'', Some True, PStr ''1'')"
  let ?v = "(PStr ''70'', Some False, PStr ''abc'')"
  have vd: "collect_vehicles ?sl ?dl ?al [0..<length ?sl] [] = Inr ([?u] @ ?v # [?u])"
    by (simp add: specified_def index_def)
  have band: "kband_rad main_window_init \<or> kaband_rad main_window_init \<or> xband_rad main_window_init"
    by (simp add: main_window_init_def)
  obtain g where g: "calc_frequency main_window_init (meters_per_sec main_window_init 60) = Some g"
    using calc_frequency_selected [OF band] by blast
  have ok: "\<exists>b. create_sine decimal_float main_window_init (PStr ''60'') (Some True)
      (PStr ''0.00005'') (PStr ''1'') = Inr (NdArray b)"
    using create_sine_parsed [of decimal_float "PStr ''60''" 60 "PStr ''0.00005''" "5 / 100000"
        "PStr ''1''" 1 main_window_init g True] g
    by (simp add: decimal_float_60 decimal_float_short decimal_float_1)
  have bad: "create_sine decimal_float main_window_init (PStr ''70'') (Some False)
      (PStr ''0.00005'') (PStr ''abc'') = Inr (Str ''CONVERT ERROR'')"
    by (rule create_sine_unparsed_amplitude
        [OF decimal_float_70 decimal_float_short decimal_float_abc])
  have pre: "\<forall>u\<in>set [?u]. \<exists>b. create_sine decimal_float main_window_init (fst u) (fst (snd u))
      (PStr ''0.00005'') (snd (snd u)) = Inr (NdArray b)"
    using ok by simp
  have v: "create_sine decimal_float main_window_init (fst ?v) (fst (snd ?v))
      (PStr ''0.00005'') (snd (snd ?v)) = Inr (Str ''CONVERT ERROR'')"
    using bad by simp
  from fail_fast [OF vd, of "[?u]" ?v "[?u]" decimal_float main_window_init "PStr ''0.00005''"
      "''CONVERT ERROR''"] pre v
  have "run_advanced decimal_float main_window_init ?sl ?dl ?al (PStr ''0.00005'') =
       Inr \<lparr>error_windows = [''CONVERT ERROR''], played = []\<rparr>
     \<and> (\<exists>st. synth_loop decimal_float main_window_init (PStr ''0.00005'') ([?u] @ ?v # [?u])
            loop_start = Inr st \<and> error st \<and> calls st = length [?u] + 1)"
    by blast
  moreover have "length [?u] + 1 = 2" by simp
  ultimately have "run_advanced decimal_float main_window_init ?sl ?dl ?al (PStr ''0.00005'') =
       Inr \<lparr>error_windows = [''CONVERT ERROR''], played = []\<rparr>
     \<and> (\<exists>st. synth_loop decimal_float main_window_init (PStr ''0.00005'') ([?u] @ ?v # [?u])
            loop_start = Inr st \<and> error st \<and> calls st = 2)"
    by (simp only:)
  with vd ok bad show ?thesis by blast
qed

subsection \<open>C7: the errors of the synthesis\<close>



subsection \<open>C8: incomplete vehicles are dropped\<close>

text \<open>C8: for the three lists of the advanced window, of the same length, the retained vehicles are
  the triples whose speed and amplitude are neither \<^verbatim>\<open>None\<close> nor the
  empty text and whose direction is not \<^verbatim>\<open>None\<close>; the run is the run of
  the retained vehicles alone; and the run shows the dialog of the data error exactly when no
  vehicle is retained.\<close>

theorem incomplete_vehicles_dropped:
  assumes "length direct_list = length speed_list" and "length amp_list = length speed_list"
  shows "collect_vehicles speed_list direct_list amp_list [0..<length speed_list] [] =
           Inr (filter fully_specified (zip speed_list (zip direct_list amp_list)))
         \<and> ((\<exists>fx. run_advanced P self speed_list direct_list amp_list duration = Inr fx
                  \<and> ''DATA ERROR'' \<in> set (error_windows fx))
              = (filter fully_specified (zip speed_list (zip direct_list amp_list)) = []))
         \<and> (filter fully_specified (zip speed_list (zip direct_list amp_list)) = [] \<longrightarrow>
              run_advanced P self speed_list direct_list amp_list duration =
                Inr \<lparr>error_windows = [''DATA ERROR''], played = []\<rparr>)
         \<and> run_advanced P self speed_list direct_list amp_list duration =
             run_advanced P self
               (map fst (filter fully_specified (zip speed_list (zip direct_list amp_list))))
               (map (fst \<circ> snd) (filter fully_specified (zip speed_list (zip direct_list amp_list))))
               (map (snd \<circ> snd) (filter fully_specified (zip speed_list (zip direct_list amp_list))))
               duration"
proof -
  let ?vd = "filter fully_specified (zip speed_list (zip direct_list amp_list))"
  let ?s = "map fst ?vd" and ?d = "map (fst \<circ> snd) ?vd" and ?a = "map (snd \<circ> snd) ?vd"
  have vd: "collect_vehicles speed_list direct_list amp_list [0..<length speed_list] [] = Inr ?vd"
    by (rule collect_vehicles_zip [OF assms])
  have none: "run_advanced P self speed_list direct_list amp_list duration =
                Inr \<lparr>error_windows = [''DATA ERROR''], played = []\<rparr>" if "?vd = []"
    using vd that by (simp add: run_advanced_no_vehicle)
  have only: "?vd = []"
    if run: "run_advanced P self speed_list direct_list amp_list duration = Inr fx"
      and win: "''DATA ERROR'' \<in> set (error_windows fx)" for fx
  proof (rule ccontr)
    assume ne: "?vd \<noteq> []"
    from run_advanced_outcomes [OF run] vd ne
    consider scaled where "fx = \<lparr>error_windows = [], played = [scaled]\<rparr>"
      | v msg where "synth P self duration v = Inr (Str msg)"
          "fx = \<lparr>error_windows = [msg], played = []\<rparr>"
      by auto
    then show False
    proof cases
      case 1
      with win show False by simp
    next
      case 2
      with win create_sine_never_data_error [OF 2(1)] show False by simp
    qed
  qed
  have "collect_vehicles ?s ?d ?a [0..<length ?s] [] =
      Inr (filter fully_specified (zip ?s (zip ?d ?a)))"
    by (rule collect_vehicles_zip) simp_all
  also have "filter fully_specified (zip ?s (zip ?d ?a)) = ?vd"
    by (simp only: zip_of_columns) simp
  finally have "collect_vehicles ?s ?d ?a [0..<length ?s] [] = Inr ?vd" .
  with vd have same: "run_advanced P self speed_list direct_list amp_list duration =
      run_advanced P self ?s ?d ?a duration"
    by (simp add: run_advanced_def)
  show ?thesis
  proof (intro conjI)
    show "collect_vehicles speed_list direct_list amp_list [0..<length speed_list] [] = Inr ?vd"
      by (rule vd)
    show "(\<exists>fx. run_advanced P self speed_list direct_list amp_list duration = Inr fx
             \<and> ''DATA ERROR'' \<in> set (error_windows fx)) = (?vd = [])"
      using none only by auto
    show "?vd = [] \<longrightarrow> run_advanced P self speed_list direct_list amp_list duration =
            Inr \<lparr>error_windows = [''DATA ERROR''], played = []\<rparr>"
      using none by blast
    show "run_advanced P self speed_list direct_list amp_list duration =
            run_advanced P self ?s ?d ?a duration"
      by (rule same)
  qed
qed

text \<open>C8, at a concrete input. Three vehicles, each with one part missing: the data error.\<close>

theorem incomplete_vehicles_dropped_witness:
  "length [Some True, Some True, None] = length [PStr '''', PNone, PStr ''60'']
   \<and> length [PStr ''1'', PStr ''1'', PStr ''1''] = length [PStr '''', PNone, PStr ''60'']
   \<and> filter fully_specified (zip [PStr '''', PNone, PStr ''60'']
         (zip [Some True, Some True, None] [PStr ''1'', PStr ''1'', PStr ''1''])) = []
   \<and> collect_vehicles [PStr '''', PNone, PStr ''60''] [Some True, Some True, None]
        [PStr ''1'', PStr ''1'', PStr ''1''] [0..<length [PStr '''', PNone, PStr ''60'']] [] = Inr []
   \<and> run_advanced decimal_float main_window_init [PStr '''', PNone, PStr ''60'']
        [Some True, Some True, None] [PStr ''1'', PStr ''1'', PStr ''1''] (PStr ''1'') =
       Inr \<lparr>error_windows = [''DATA ERROR''], played = []\<rparr>"
proof -
  let ?sl = "[PStr '''', PNone, PStr ''60'']"
  let ?dl = "[Some True, Some True, None]"
  let ?al = "[PStr ''1'', PStr ''1'', PStr ''1'']"
  have l1: "length ?dl = length ?sl" by simp
  have l2: "length ?al = length ?sl" by simp
  have e: "filter fully_specified (zip ?sl (zip ?dl ?al)) = []" by (simp add: fully_specified_def)
  from incomplete_vehicles_dropped [OF l1 l2, of decimal_float main_window_init "PStr ''1''"] e
  show ?thesis by simp
qed

subsection \<open>C9: the conversion of the speed\<close>

text \<open>C9: the speed is multiplied by 1000/3600 when the metric button is active and by 1609.34/3600
  otherwise; the opposite speed gives the opposite beat frequency, a negative speed a negative
  one; and with a direction, parsed arguments and a band the synthesis returns an array for
  every speed, negative ones too.\<close>

theorem unit_conversion:
  "meters_per_sec self speed =
     (if metric_button self then speed * 1000 / 3600 else speed * 1609.34 / 3600)
   \<and> calc_frequency self (meters_per_sec self (- speed)) =
       map_option uminus (calc_frequency self (meters_per_sec self speed))
   \<and> (speed < 0 \<and> calc_frequency self (meters_per_sec self speed) = Some f \<longrightarrow> f < 0)
   \<and> (py_float P sp = Inr speed \<and> py_float P du = Inr d \<and> py_float P am = Inr a
        \<and> (kband_rad self \<or> kaband_rad self \<or> xband_rad self) \<longrightarrow>
      (\<exists>channels. create_sine P self sp (Some towards) du am = Inr (NdArray channels)))"
proof -
  have conv: "meters_per_sec self speed =
     (if metric_button self then speed * 1000 / 3600 else speed * 1609.34 / 3600)"
    by (simp add: meters_per_sec_def)
  have mirror: "calc_frequency self (meters_per_sec self (- speed)) =
       map_option uminus (calc_frequency self (meters_per_sec self speed))"
    by (simp add: calc_frequency_def meters_per_sec_def Let_def)
  have neg: "f < 0" if "speed < 0" and "calc_frequency self (meters_per_sec self speed) = Some f"
  proof -
    have "meters_per_sec self speed < 0"
      using that(1) by (simp add: meters_per_sec_def mult_neg_pos)
    with that(2) show ?thesis
      by (auto simp: calc_frequency_def Let_def split: if_splits
          intro!: divide_neg_pos mult_pos_neg)
  qed
  have total: "\<exists>channels. create_sine P self sp (Some towards) du am = Inr (NdArray channels)"
    if ps: "py_float P sp = Inr speed" and pd: "py_float P du = Inr d"
      and pa: "py_float P am = Inr a"
      and band: "kband_rad self \<or> kaband_rad self \<or> xband_rad self"
  proof -
    obtain g where "calc_frequency self (meters_per_sec self speed) = Some g"
      using calc_frequency_selected [OF band] by blast
    from create_sine_parsed [OF ps pd pa this] show ?thesis by blast
  qed
  from conv mirror neg total show ?thesis by blast
qed

text \<open>C9, at a concrete input. The speed \<^verbatim>\<open>-60\<close> in miles per hour, K band.\<close>

theorem unit_conversion_witness:
  "- 60 < (0::real)
   \<and> meters_per_sec main_window_init (- 60) = - 60 * 1609.34 / 3600
   \<and> calc_frequency main_window_init (meters_per_sec main_window_init (- 60)) =
       Some (- (2 * 24150000000 * (60 * 1609.34 / 3600) / 299792458))
   \<and> py_float decimal_float (PStr ''-60'') = Inr (- 60)
   \<and> py_float decimal_float (PStr ''0.00005'') = Inr (5 / 100000)
   \<and> py_float decimal_float (PInt 1) = Inr 1
   \<and> (\<exists>channels. create_sine decimal_float main_window_init (PStr ''-60'') (Some True)
         (PStr ''0.00005'') (PInt 1) = Inr (NdArray channels))"
proof -
  have s: "py_float decimal_float (PStr ''-60'') = Inr (- 60)"
    by (simp add: decimal_float_def unsigned_decimal_def digit_val_def)
  have d: "py_float decimal_float (PStr ''0.00005'') = Inr (5 / 100000)"
    by (simp add: decimal_float_short)
  have a: "py_float decimal_float (PInt 1) = Inr 1"
    by simp
  have band: "kband_rad main_window_init \<or> kaband_rad main_window_init \<or> xband_rad main_window_init"
    by (simp add: main_window_init_def)
  have f: "calc_frequency main_window_init (meters_per_sec main_window_init (- 60)) =
       Some (- (2 * 24150000000 * (60 * 1609.34 / 3600) / 299792458))"
    by (simp add: calc_frequency_def meters_per_sec_def main_window_init_def)
  from unit_conversion [of main_window_init "- 60" _ decimal_float "PStr ''-60''"
      "PStr ''0.00005''" "5 / 100000" "PInt 1" 1 True] s d a band f
  show ?thesis by (simp add: main_window_init_def)
qed

subsection \<open>C10: the direction in the advanced window\<close>

text \<open>C10: \<^verbatim>\<open>get_direction\<close> gives \<^verbatim>\<open>True\<close>,
  approaching, for an unchecked button and \<^verbatim>\<open>False\<close>, receding, for a
  checked one, never \<^verbatim>\<open>None\<close>; and no run of the advanced window shows
  the dialog of the direction error, whatever the lists are, since line 487 retains a vehicle
  only with a direction.\<close>

theorem direction_always_specified:
  "get_direction w = map (\<lambda>active. \<not> active) (appr_buttons w)
   \<and> None \<notin> set (map Some (get_direction w))
   \<and> (\<forall>fx. run_advanced P self speed_list direct_list amp_list duration = Inr fx \<longrightarrow>
            ''DIR ERROR'' \<notin> set (error_windows fx))
   \<and> (\<not> simple_shown self \<longrightarrow>
        (\<forall>fx. run P self = Inr fx \<longrightarrow> ''DIR ERROR'' \<notin> set (error_windows fx)))"
proof -
  have adv: "''DIR ERROR'' \<notin> set (error_windows fx)"
    if run: "run_advanced P self sl dl al du = Inr fx" for sl dl al du fx
  proof -
    from run_advanced_outcomes [OF run]
    obtain vd where vd: "collect_vehicles sl dl al [0..<length sl] [] = Inr vd"
      and cases: "(vd = [] \<and> fx = \<lparr>error_windows = [''DATA ERROR''], played = []\<rparr>)
              \<or> (vd \<noteq> [] \<and> (\<exists>scaled. fx = \<lparr>error_windows = [], played = [scaled]\<rparr>)
                   \<and> (\<forall>v\<in>set vd. \<forall>m. synth P self du v \<noteq> Inr (Str m)))
              \<or> (\<exists>v\<in>set vd. \<exists>msg. synth P self du v = Inr (Str msg)
                   \<and> fx = \<lparr>error_windows = [msg], played = []\<rparr>)"
      by blast
    have dirs: "\<forall>v\<in>set vd. fst (snd v) \<noteq> None"
      using collect_vehicles_directions [OF vd] by simp
    from cases consider "fx = \<lparr>error_windows = [''DATA ERROR''], played = []\<rparr>"
      | scaled where "fx = \<lparr>error_windows = [], played = [scaled]\<rparr>"
      | v msg where "v \<in> set vd" "synth P self du v = Inr (Str msg)"
          "fx = \<lparr>error_windows = [msg], played = []\<rparr>"
      by blast
    then show ?thesis
    proof cases
      case 1
      then show ?thesis by simp
    next
      case 2
      then show ?thesis by simp
    next
      case 3
      from dirs 3(1) obtain towards where "fst (snd v) = Some towards" by auto
      with 3(2) create_sine_messages [of P self "fst v" towards du "snd (snd v)" msg]
      have "msg \<noteq> ''DIR ERROR''" by auto
      with 3(3) show ?thesis by simp
    qed
  qed
  have "get_direction w = map (\<lambda>active. \<not> active) (appr_buttons w)"
    by (simp add: get_direction_def)
  moreover have "None \<notin> set (map Some (get_direction w))"
    by auto
  moreover have "''DIR ERROR'' \<notin> set (error_windows fx)"
    if "\<not> simple_shown self" and "run P self = Inr fx" for fx
    using that adv by (simp add: run_def Let_def)
  ultimately show ?thesis using adv by blast
qed

text \<open>C10, at a concrete input. The advanced window with the first button checked and an amplitude
  that is not a number.\<close>

theorem direction_always_specified_witness:
  "\<not> simple_shown (main_window_init
        \<lparr>simple_shown := False,
         advanced_win := \<lparr>adv_dur_entry = ''1'', speed_entries = [''60'', '''', ''''],
           appr_buttons = [True, False, False], amp_entries = [''abc'', '''', '''']\<rparr>\<rparr>)
   \<and> get_direction \<lparr>adv_dur_entry = ''1'', speed_entries = [''60'', '''', ''''],
           appr_buttons = [True, False, False], amp_entries = [''abc'', '''', '''']\<rparr> =
       [False, True, True]
   \<and> run decimal_float (main_window_init
        \<lparr>simple_shown := False,
         advanced_win := \<lparr>adv_dur_entry = ''1'', speed_entries = [''60'', '''', ''''],
           appr_buttons = [True, False, False], amp_entries = [''abc'', '''', '''']\<rparr>\<rparr>) =
       Inr \<lparr>error_windows = [''CONVERT ERROR''], played = []\<rparr>
   \<and> ''DIR ERROR'' \<notin> set (error_windows \<lparr>error_windows = [''CONVERT ERROR''], played = []\<rparr>)"
proof -
  let ?w = "\<lparr>adv_dur_entry = ''1'', speed_entries = [''60'', '''', ''''],
           appr_buttons = [True, False, False], amp_entries = [''abc'', '''', '''']\<rparr>"
  let ?self = "main_window_init\<lparr>simple_shown := False, advanced_win := ?w\<rparr>"
  have shown: "\<not> simple_shown ?self" by simp
  have cs: "create_sine decimal_float ?self (PStr ''60'') (Some False) (PStr ''1'') (PStr ''abc'') =
      Inr (Str ''CONVERT ERROR'')"
    by (rule create_sine_unparsed_amplitude
        [OF decimal_float_60 decimal_float_1 decimal_float_abc])
  have "run_advanced decimal_float ?self [PStr ''60'', PStr '''', PStr '''']
      [Some False, Some True, Some True] [PStr ''abc'', PStr '''', PStr ''''] (PStr ''1'') =
      Inr \<lparr>error_windows = [''CONVERT ERROR''], played = []\<rparr>"
    using cs
    by (simp add: run_advanced_def specified_def index_def loop_start_def
        create_error_window_def no_effects_def)
  then have run: "run decimal_float ?self =
      Inr \<lparr>error_windows = [''CONVERT ERROR''], played = []\<rparr>"
    by (simp add: run_def Let_def get_speed_def get_direction_def get_amplitude_def
        get_duration_def)
  from direction_always_specified [of ?w decimal_float ?self] shown run
  show ?thesis by (simp add: get_direction_def)
qed

end
